theory Spec2Isabelle
  imports Main "HOL-Library.Word"
begin

unbundle bit_operations_syntax

section \<open>The system-call layer of userprog/syscall.c\<close>

text \<open>
  A shallow embedding of \<^verbatim>\<open>src/pintos/src/userprog/syscall.c\<close>. Every function of
  that file is a HOL function of the same name over an explicit process state. Kernel
  services that the file calls but that live in other files (the supplemental page
  table, the filesystem, the thread layer) are either modelled from the specification,
  each marked as such, or left to an environment record of oracles.
\<close>

subsection \<open>Data\<close>

type_synonym addr = "32 word"
type_synonym byte = "8 word"
type_synonym cstring = "byte list"

text \<open>A \<^verbatim>\<open>struct file *\<close>: an open-file handle of the filesystem.\<close>
type_synonym file_handle = nat

text \<open>The provenance tags of a virtual page, as section 3 of the specification lists them.\<close>
datatype provenance = ZERO | FILE_EXECUTABLE | FILE_MAPPED | SWAPPED | FRAMED

text \<open>
  \<^verbatim>\<open>struct spt_entry\<close> is declared in vm/page.h. The code of syscall.c reads
  \<^verbatim>\<open>writeable\<close> and writes \<^verbatim>\<open>pinned\<close>; the file payload holds the arguments
  that \<^verbatim>\<open>spt_link_mmap\<close> receives.
\<close>
record spt_entry =
  ptype :: provenance
  writeable :: bool
  pinned :: bool
  pfile :: "file_handle option"
  pofs :: "32 word"
  pread_bytes :: "32 word"
  pzero_bytes :: "32 word"

record file_descriptor =
  fd :: "32 word"
  name :: cstring
  file_pointer :: file_handle

text \<open>Every call that leaves syscall.c for a device, the filesystem or the thread layer.\<close>
datatype event =
    FilesysCreate cstring "32 word"
  | FilesysRemove cstring
  | FilesysOpen cstring
  | FileClose file_handle
  | FileRead file_handle "32 word"
  | FileWrite file_handle cstring
  | FileLength file_handle
  | FileSeek file_handle "32 word"
  | FileTell file_handle
  | FileReopen file_handle
  | Putbuf cstring
  | InputGetc
  | PrintExit cstring "32 word"
  | ProcessExecute cstring
  | ProcessWait "32 word"
  | RemoveMapid "32 word"
  | ShutdownPowerOff
  | ThreadExit

text \<open>
  The state that syscall.c reads and writes: the fields of \<^verbatim>\<open>thread_current ()\<close> it
  touches, the supplemental page table keyed by page-aligned address, the global
  \<^verbatim>\<open>filesystem_lock\<close> (held or not), the user memory, and the history of outside calls.
\<close>
record pstate =
  spt :: "addr \<Rightarrow> spt_entry option"
  file_descriptors :: "file_descriptor list"
  fd_index :: "32 word"
  mapid :: "32 word"
  mmap_list :: "(32 word \<times> addr) list"
  exit_status :: "32 word"
  thread_name :: cstring
  filesystem_lock :: bool
  mem :: "addr \<Rightarrow> byte"
  trace :: "event list"

record intr_frame =
  esp :: addr
  eax :: "32 word"

text \<open>The system calls of the dispatcher's switch (the numbers are in syscall-nr.h).\<close>
datatype syscall =
    SYS_HALT | SYS_EXIT | SYS_EXEC | SYS_WAIT | SYS_CREATE | SYS_REMOVE | SYS_OPEN
  | SYS_FILESIZE | SYS_READ | SYS_WRITE | SYS_SEEK | SYS_TELL | SYS_CLOSE
  | SYS_MMAP | SYS_MUNMAP

text \<open>
  What the other kernel files decide. The constants \<^verbatim>\<open>PHYS_BASE\<close> and the numbering of
  the system calls, the stack-growth rule, the success of allocations and the answers of
  the filesystem and the process layer are parameters; each answer may depend on the
  whole state, hence on the history.
\<close>
record env =
  phys_base :: addr
  syscall_nr :: "32 word \<Rightarrow> syscall option"
  is_stack_growth :: "addr \<Rightarrow> addr \<Rightarrow> bool"
  stack_growth_ok :: "pstate \<Rightarrow> addr \<Rightarrow> bool"
  spt_link_ok :: "pstate \<Rightarrow> addr \<Rightarrow> bool"
  malloc_ok :: "pstate \<Rightarrow> bool"
  filesys_create_res :: "pstate \<Rightarrow> cstring \<Rightarrow> 32 word \<Rightarrow> bool"
  filesys_remove_res :: "pstate \<Rightarrow> cstring \<Rightarrow> bool"
  filesys_open_res :: "pstate \<Rightarrow> cstring \<Rightarrow> file_handle option"
  file_read_res :: "pstate \<Rightarrow> file_handle \<Rightarrow> 32 word \<Rightarrow> cstring"
  file_write_res :: "pstate \<Rightarrow> file_handle \<Rightarrow> cstring \<Rightarrow> 32 word"
  file_length_res :: "pstate \<Rightarrow> file_handle \<Rightarrow> 32 word"
  file_tell_res :: "pstate \<Rightarrow> file_handle \<Rightarrow> 32 word"
  file_reopen_res :: "pstate \<Rightarrow> file_handle \<Rightarrow> file_handle option"
  process_execute_res :: "pstate \<Rightarrow> cstring \<Rightarrow> 32 word"
  process_wait_res :: "pstate \<Rightarrow> 32 word \<Rightarrow> 32 word"

text \<open>
  How a call ends. \<^verbatim>\<open>thread_exit\<close> and \<^verbatim>\<open>shutdown_power_off\<close> never return, a
  dereferenced null pointer faults in the kernel and a failed \<^verbatim>\<open>ASSERT\<close> panics it:
  these stop the system call.
\<close>
datatype stop = Exited | NullDeref | PoweredOff | Panicked

datatype 'a res = Normal 'a pstate | Stopped stop pstate

fun state_of :: "'a res \<Rightarrow> pstate" where
  "state_of (Normal v st) = st"
| "state_of (Stopped why st) = st"

fun exit_code :: "'a res \<Rightarrow> 32 word option" where
  "exit_code (Stopped Exited st) = Some (exit_status st)"
| "exit_code (Stopped NullDeref st) = None"
| "exit_code (Stopped PoweredOff st) = None"
| "exit_code (Stopped Panicked st) = None"
| "exit_code (Normal v st) = None"

fun returned :: "'a res \<Rightarrow> 'a option" where
  "returned (Normal v st) = Some v"
| "returned (Stopped why st) = None"

definition andthen :: "'a res \<Rightarrow> ('a \<Rightarrow> pstate \<Rightarrow> 'b res) \<Rightarrow> 'b res" where
  "andthen r k = (case r of Normal v st \<Rightarrow> k v st | Stopped why st \<Rightarrow> Stopped why st)"

definition emit :: "event \<Rightarrow> pstate \<Rightarrow> pstate" where
  "emit e st = st\<lparr>trace := trace st @ [e]\<rparr>"

subsection \<open>Addresses and user memory\<close>

definition PGSIZE :: "32 word" where
  "PGSIZE = 4096"

definition pg_round_down :: "addr \<Rightarrow> addr" where
  "pg_round_down a = a - a mod PGSIZE"

definition is_user_vaddr :: "env \<Rightarrow> addr \<Rightarrow> bool" where
  "is_user_vaddr E a = (a < phys_base E)"

text \<open>
  Modelled from the spec: \<^verbatim>\<open>is_valid_user_addr\<close> is defined outside syscall.c.
  Section 4.1: true iff the address is non-null and lies in the user portion of the
  address space.
\<close>
definition is_valid_user_addr :: "env \<Rightarrow> addr \<Rightarrow> bool" where
  "is_valid_user_addr E a = (a \<noteq> 0 \<and> is_user_vaddr E a)"

text \<open>A little-endian 32-bit load, the \<^verbatim>\<open>*(uint32_t *) p\<close> of the x86.\<close>
definition read32 :: "(addr \<Rightarrow> byte) \<Rightarrow> addr \<Rightarrow> 32 word" where
  "read32 m p =
     ucast (m p) + push_bit 8 (ucast (m (p + 1))) + push_bit 16 (ucast (m (p + 2)))
       + push_bit 24 (ucast (m (p + 3)))"

text \<open>
  The C string at a pointer: the bytes before the first NUL. The scan also stops at
  address 0, which no string that passed \<^verbatim>\<open>valid_string\<close> reaches.
\<close>
function c_string :: "(addr \<Rightarrow> byte) \<Rightarrow> addr \<Rightarrow> cstring" where
  "c_string m p = (if p = 0 \<or> m p = 0 then [] else m p # c_string m (p + 1))"
  by pat_completeness auto
termination
proof (relation "measure (\<lambda>(m, p). unat (- p))")
  show "wf (measure (\<lambda>(m :: addr \<Rightarrow> byte, p :: addr). unat (- p)))"
    by simp
next
  fix m :: "addr \<Rightarrow> byte" and p :: addr
  assume "\<not> (p = 0 \<or> m p = 0)"
  then have "- p \<noteq> 0" by simp
  moreover have "- (p + 1) = - p - 1" by simp
  ultimately have "unat (- (p + 1)) < unat (- p)"
    by (simp add: unat_minus_one unat_gt_0)
  then show "((m, p + 1), (m, p)) \<in> measure (\<lambda>(m, p). unat (- p))"
    by simp
qed

definition mem_bytes :: "(addr \<Rightarrow> byte) \<Rightarrow> addr \<Rightarrow> 32 word \<Rightarrow> cstring" where
  "mem_bytes m p n = map (\<lambda>i. m (p + of_nat i)) [0..<unat n]"

fun write_bytes :: "(addr \<Rightarrow> byte) \<Rightarrow> addr \<Rightarrow> cstring \<Rightarrow> (addr \<Rightarrow> byte)" where
  "write_bytes m p [] = m"
| "write_bytes m p (b # bs) = write_bytes (m(p := b)) (p + 1) bs"

subsection \<open>The supplemental page table (vm/page.c)\<close>

text \<open>
  Modelled from the spec: \<^verbatim>\<open>get_spte\<close> is defined in vm/page.c. Section 4.2:
  \<^verbatim>\<open>lookup(addr)\<close> returns the entry covering addr's containing page, or absence.
\<close>
definition get_spte :: "pstate \<Rightarrow> addr \<Rightarrow> spt_entry option" where
  "get_spte st a = spt st (pg_round_down a)"

text \<open>
  Modelled from the spec: \<^verbatim>\<open>spt_load\<close> is defined in vm/page.c. Sections 3, 4.2 and
  4.5: the page becomes resident (provenance FRAMED) and its pinned flag is set.
\<close>
definition spt_load :: "addr \<Rightarrow> pstate \<Rightarrow> pstate" where
  "spt_load a st =
     (case get_spte st a of
        None \<Rightarrow> st
      | Some e \<Rightarrow> st\<lparr>spt := (spt st)(pg_round_down a \<mapsto> e\<lparr>ptype := FRAMED, pinned := True\<rparr>)\<rparr>)"

text \<open>
  Modelled from the spec: \<^verbatim>\<open>spt_stack_growth\<close> is defined in vm/page.c. Section 4.2:
  a fresh ZERO-provenance, writable entry is synthesized at that page and immediately
  loaded. Whether the allocation succeeds is the environment's answer.
\<close>
definition spt_stack_growth :: "env \<Rightarrow> addr \<Rightarrow> pstate \<Rightarrow> bool \<times> pstate" where
  "spt_stack_growth E a st =
     (if stack_growth_ok E st a
      then (True, spt_load a (st\<lparr>spt := (spt st)(pg_round_down a \<mapsto>
              \<lparr>ptype = ZERO, writeable = True, pinned = False, pfile = None, pofs = 0,
               pread_bytes = 0, pzero_bytes = PGSIZE\<rparr>)\<rparr>))
      else (False, st))"

text \<open>
  Modelled from the spec: \<^verbatim>\<open>spt_link_mmap\<close> is defined in vm/page.c. Sections 3 and
  4.6: one FILE_MAPPED entry is created for the page, recording the file handle, the
  offset and the byte counts, and registered under the mapping being built (the current
  \<^verbatim>\<open>mapid\<close>). Whether the creation succeeds is the environment's answer; a failed
  creation changes nothing.
\<close>
definition spt_link_mmap ::
  "env \<Rightarrow> file_handle option \<Rightarrow> 32 word \<Rightarrow> addr \<Rightarrow> 32 word \<Rightarrow> 32 word \<Rightarrow> bool \<Rightarrow> pstate
     \<Rightarrow> bool \<times> pstate" where
  "spt_link_mmap E f ofs a read_bytes zero_bytes writable st =
     (if spt_link_ok E st a
      then (True, st\<lparr>spt := (spt st)(pg_round_down a \<mapsto>
              \<lparr>ptype = FILE_MAPPED, writeable = writable, pinned = False, pfile = f,
               pofs = ofs, pread_bytes = read_bytes, pzero_bytes = zero_bytes\<rparr>),
              mmap_list := mmap_list st @ [(mapid st, pg_round_down a)]\<rparr>)
      else (False, st))"

text \<open>
  Modelled from the spec: \<^verbatim>\<open>remove_mapid\<close> is defined in vm/page.c. Section 4.6,
  \<^verbatim>\<open>unmap(mapid)\<close>: every SPT entry registered under the mapid is removed (the
  write-back of dirty pages is the event).
\<close>
definition remove_mapid :: "32 word \<Rightarrow> pstate \<Rightarrow> pstate" where
  "remove_mapid m st =
     emit (RemoveMapid m)
       (st\<lparr>spt := (\<lambda>p. if (m, p) \<in> set (mmap_list st) then None else spt st p),
           mmap_list := filter (\<lambda>r. fst r \<noteq> m) (mmap_list st)\<rparr>)"

subsection \<open>The thread layer and the lock\<close>

text \<open>
  Modelled from the spec: \<^verbatim>\<open>thread_exit\<close> is defined in threads/thread.c and never
  returns. Section 4.6: unmap is also implicitly invoked, per mapping, on process exit.
\<close>
definition thread_exit :: "pstate \<Rightarrow> 'a res" where
  "thread_exit st =
     Stopped Exited (emit ThreadExit (fold remove_mapid (remdups (map fst (mmap_list st))) st))"

text \<open>
  The lock is held or free. Waiting for another thread and the assertions of
  threads/synch.c (acquiring a lock already held) are outside this model.
\<close>
definition lock_acquire :: "pstate \<Rightarrow> pstate" where
  "lock_acquire st = st\<lparr>filesystem_lock := True\<rparr>"

definition lock_release :: "pstate \<Rightarrow> pstate" where
  "lock_release st = st\<lparr>filesystem_lock := False\<rparr>"

subsection \<open>Process exit\<close>

text \<open>The \<^verbatim>\<open>while\<close> loop of \<^verbatim>\<open>sys_exit\<close>: pop the front descriptor, close its file.\<close>
fun sys_exit_loop :: "file_descriptor list \<Rightarrow> pstate \<Rightarrow> pstate" where
  "sys_exit_loop [] st = st"
| "sys_exit_loop (fd_s # rest) st =
     sys_exit_loop rest (emit (FileClose (file_pointer fd_s)) (st\<lparr>file_descriptors := rest\<rparr>))"

definition sys_exit :: "32 word \<Rightarrow> pstate \<Rightarrow> 'a res" where
  "sys_exit status st =
     (let st1 = sys_exit_loop (file_descriptors st) st;
          st2 = st1\<lparr>exit_status := status\<rparr>;
          st3 = emit (PrintExit (thread_name st2) status) st2
      in thread_exit st3)"

subsection \<open>Validation and pinning\<close>

text \<open>The result is the entry that \<^verbatim>\<open>get_spte\<close> found (the C code returns the pointer).\<close>
definition check_and_pin_addr :: "env \<Rightarrow> addr \<Rightarrow> addr \<Rightarrow> pstate \<Rightarrow> spt_entry option res" where
  "check_and_pin_addr E a sp st =
     (case get_spte st a of
        Some spte \<Rightarrow> Normal (Some spte) (spt_load a st)
      | None \<Rightarrow>
          if is_stack_growth E a sp
          then (if \<not> fst (spt_stack_growth E a st)
                then sys_exit (- 1) (snd (spt_stack_growth E a st))
                else Normal None (snd (spt_stack_growth E a st)))
          else sys_exit (- 1) st)"

lemma word_succ_measure: "(a :: 32 word) < e \<Longrightarrow> unat e - unat (a + 1) < unat e - unat a"
  by unat_arith

text \<open>
  The \<^verbatim>\<open>for\<close> loop of \<^verbatim>\<open>check_and_pin_buffer\<close>, from the current address up to the
  end \<^verbatim>\<open>uaddr + len\<close> (computed once, in 32 bits).
\<close>
function check_and_pin_buffer_loop ::
  "env \<Rightarrow> addr \<Rightarrow> addr \<Rightarrow> addr \<Rightarrow> bool \<Rightarrow> pstate \<Rightarrow> unit res" where
  "check_and_pin_buffer_loop E a e sp w st =
     (if a < e then
        (if \<not> is_valid_user_addr E a then sys_exit (- 1) st
         else (case check_and_pin_addr E a sp st of
                 Stopped why st' \<Rightarrow> Stopped why st'
               | Normal spte st' \<Rightarrow>
                   (if (case spte of None \<Rightarrow> False | Some s \<Rightarrow> w \<and> \<not> writeable s)
                    then sys_exit (- 1) st'
                    else check_and_pin_buffer_loop E (a + 1) e sp w st')))
      else Normal () st)"
  by pat_completeness auto
termination
  by (relation "measure (\<lambda>(E, a, e, sp, w, st). unat e - unat a)")
     (auto simp: word_succ_measure)

definition check_and_pin_buffer ::
  "env \<Rightarrow> addr \<Rightarrow> 32 word \<Rightarrow> addr \<Rightarrow> bool \<Rightarrow> pstate \<Rightarrow> unit res" where
  "check_and_pin_buffer E uaddr len sp w st =
     check_and_pin_buffer_loop E uaddr (uaddr + len) sp w st"

text \<open>
  The \<^verbatim>\<open>while\<close> loop of \<^verbatim>\<open>check_and_pin_string\<close>. Nothing bounds it: it runs until a
  NUL byte or a rejected address, so not returning is the value None.
\<close>
partial_function (option) check_and_pin_string_loop ::
  "env \<Rightarrow> addr \<Rightarrow> addr \<Rightarrow> pstate \<Rightarrow> unit res option" where
  "check_and_pin_string_loop E str sp st =
     (if mem st str \<noteq> 0 then
        (case check_and_pin_addr E (str + 1) sp st of
           Stopped why st' \<Rightarrow> Some (Stopped why st')
         | Normal spte st' \<Rightarrow> check_and_pin_string_loop E (str + 1) sp st')
      else Some (Normal () st))"

definition check_and_pin_string :: "env \<Rightarrow> addr \<Rightarrow> addr \<Rightarrow> pstate \<Rightarrow> unit res option" where
  "check_and_pin_string E str sp st =
     (case check_and_pin_addr E str sp st of
        Stopped why st' \<Rightarrow> Some (Stopped why st')
      | Normal spte st' \<Rightarrow> check_and_pin_string_loop E str sp st')"

definition unpin_addr :: "addr \<Rightarrow> pstate \<Rightarrow> pstate" where
  "unpin_addr a st =
     (case get_spte st a of
        None \<Rightarrow> st
      | Some spte \<Rightarrow> st\<lparr>spt := (spt st)(pg_round_down a \<mapsto> spte\<lparr>pinned := False\<rparr>)\<rparr>)"

function unpin_buffer_loop :: "addr \<Rightarrow> addr \<Rightarrow> pstate \<Rightarrow> pstate" where
  "unpin_buffer_loop a e st =
     (if a < e then unpin_buffer_loop (a + 1) e (unpin_addr a st) else st)"
  by pat_completeness auto
termination
  by (relation "measure (\<lambda>(a, e, st). unat e - unat a)") (auto simp: word_succ_measure)

definition unpin_buffer :: "addr \<Rightarrow> 32 word \<Rightarrow> pstate \<Rightarrow> pstate" where
  "unpin_buffer uaddr len st = unpin_buffer_loop uaddr (uaddr + len) st"

text \<open>The \<^verbatim>\<open>while\<close> loop of \<^verbatim>\<open>unpin_string\<close>; like the pinning loop it has no bound.\<close>
partial_function (option) unpin_string_loop :: "addr \<Rightarrow> pstate \<Rightarrow> pstate option" where
  "unpin_string_loop str st =
     (if mem st str \<noteq> 0 then unpin_string_loop (str + 1) (unpin_addr (str + 1) st)
      else Some st)"

definition unpin_string :: "addr \<Rightarrow> pstate \<Rightarrow> pstate option" where
  "unpin_string str st = unpin_string_loop str (unpin_addr str st)"

function valid_uaddr_loop :: "env \<Rightarrow> addr \<Rightarrow> addr \<Rightarrow> pstate \<Rightarrow> unit res" where
  "valid_uaddr_loop E a e st =
     (if a < e then
        (if a = 0 \<or> \<not> is_user_vaddr E a \<or> get_spte st a = None
         then sys_exit (- 1) st
         else valid_uaddr_loop E (a + 1) e st)
      else Normal () st)"
  by pat_completeness auto
termination
  by (relation "measure (\<lambda>(E, a, e, st). unat e - unat a)") (auto simp: word_succ_measure)

definition valid_uaddr :: "env \<Rightarrow> addr \<Rightarrow> 32 word \<Rightarrow> pstate \<Rightarrow> unit res" where
  "valid_uaddr E uaddr len st = valid_uaddr_loop E uaddr (uaddr + len) st"

lemma valid_uaddr_null_stops: "valid_uaddr E 0 1 st \<noteq> Normal u st'"
  by (simp add: valid_uaddr_def sys_exit_def thread_exit_def Let_def)

text \<open>
  \<^verbatim>\<open>for (ptr = str; valid_uaddr (ptr, 1), *ptr; ++ptr); valid_uaddr (ptr, 1);\<close>
  The scan ends: it moves upwards and address 0 is rejected.
\<close>
function valid_string :: "env \<Rightarrow> addr \<Rightarrow> pstate \<Rightarrow> unit res" where
  "valid_string E ptr st =
     (case valid_uaddr E ptr 1 st of
        Stopped why st' \<Rightarrow> Stopped why st'
      | Normal u st' \<Rightarrow>
          if mem st' ptr \<noteq> 0 then valid_string E (ptr + 1) st' else valid_uaddr E ptr 1 st')"
  by pat_completeness auto
termination
proof (relation "measure (\<lambda>(E, ptr, st). unat (- ptr))")
  show "wf (measure (\<lambda>(E :: env, ptr :: addr, st :: pstate). unat (- ptr)))"
    by simp
next
  fix E :: env and ptr :: addr and st st' :: pstate and u :: unit
  assume ok: "valid_uaddr E ptr 1 st = Normal u st'"
  have "ptr \<noteq> 0"
    using ok valid_uaddr_null_stops by blast
  then have "- ptr \<noteq> 0" by simp
  moreover have "- (ptr + 1) = - ptr - 1" by simp
  ultimately have "unat (- (ptr + 1)) < unat (- ptr)"
    by (simp add: unat_minus_one unat_gt_0)
  then show "((E, ptr + 1, st'), (E, ptr, st)) \<in> measure (\<lambda>(E, ptr, st). unat (- ptr))"
    by simp
qed

subsection \<open>The descriptor table and the filesystem calls\<close>

definition get_fdstruct :: "pstate \<Rightarrow> 32 word \<Rightarrow> file_descriptor option" where
  "get_fdstruct st n = find (\<lambda>f. fd f = n) (file_descriptors st)"

definition filesys_create :: "env \<Rightarrow> cstring \<Rightarrow> 32 word \<Rightarrow> pstate \<Rightarrow> bool \<times> pstate" where
  "filesys_create E path sz st =
     (filesys_create_res E st path sz, emit (FilesysCreate path sz) st)"

definition filesys_remove :: "env \<Rightarrow> cstring \<Rightarrow> pstate \<Rightarrow> bool \<times> pstate" where
  "filesys_remove E path st = (filesys_remove_res E st path, emit (FilesysRemove path) st)"

definition filesys_open :: "env \<Rightarrow> cstring \<Rightarrow> pstate \<Rightarrow> file_handle option \<times> pstate" where
  "filesys_open E path st = (filesys_open_res E st path, emit (FilesysOpen path) st)"

definition file_close :: "file_handle \<Rightarrow> pstate \<Rightarrow> pstate" where
  "file_close fp st = emit (FileClose fp) st"

definition file_length :: "env \<Rightarrow> file_handle \<Rightarrow> pstate \<Rightarrow> 32 word \<times> pstate" where
  "file_length E fp st = (file_length_res E st fp, emit (FileLength fp) st)"

definition file_tell :: "env \<Rightarrow> file_handle \<Rightarrow> pstate \<Rightarrow> 32 word \<times> pstate" where
  "file_tell E fp st = (file_tell_res E st fp, emit (FileTell fp) st)"

definition file_seek :: "file_handle \<Rightarrow> 32 word \<Rightarrow> pstate \<Rightarrow> pstate" where
  "file_seek fp pos st = emit (FileSeek fp pos) st"

definition file_reopen :: "env \<Rightarrow> file_handle \<Rightarrow> pstate \<Rightarrow> file_handle option \<times> pstate" where
  "file_reopen E fp st = (file_reopen_res E st fp, emit (FileReopen fp) st)"

text \<open>\<^verbatim>\<open>file_write\<close> reads the bytes of the buffer; the result is the count written.\<close>
definition file_write ::
  "env \<Rightarrow> file_handle \<Rightarrow> addr \<Rightarrow> 32 word \<Rightarrow> pstate \<Rightarrow> 32 word \<times> pstate" where
  "file_write E fp buffer sz st =
     (file_write_res E st fp (mem_bytes (mem st) buffer sz),
      emit (FileWrite fp (mem_bytes (mem st) buffer sz)) st)"

text \<open>
  \<^verbatim>\<open>file_read\<close> stores the bytes it read, at most \<^verbatim>\<open>size\<close>, into the buffer; the
  result is their count.
\<close>
definition file_read ::
  "env \<Rightarrow> file_handle \<Rightarrow> addr \<Rightarrow> 32 word \<Rightarrow> pstate \<Rightarrow> 32 word \<times> pstate" where
  "file_read E fp buffer sz st =
     (let got = take (unat sz) (file_read_res E st fp sz)
      in (of_nat (length got),
          emit (FileRead fp sz) (st\<lparr>mem := write_bytes (mem st) buffer got\<rparr>)))"

definition putbuf :: "addr \<Rightarrow> 32 word \<Rightarrow> pstate \<Rightarrow> pstate" where
  "putbuf buffer sz st = emit (Putbuf (mem_bytes (mem st) buffer sz)) st"

definition input_getc :: "pstate \<Rightarrow> pstate" where
  "input_getc st = emit InputGetc st"

definition process_execute :: "env \<Rightarrow> cstring \<Rightarrow> pstate \<Rightarrow> 32 word \<times> pstate" where
  "process_execute E cmd st = (process_execute_res E st cmd, emit (ProcessExecute cmd) st)"

definition process_wait :: "env \<Rightarrow> 32 word \<Rightarrow> pstate \<Rightarrow> 32 word \<times> pstate" where
  "process_wait E pid st = (process_wait_res E st pid, emit (ProcessWait pid) st)"

subsection \<open>The system calls\<close>

definition sys_create :: "env \<Rightarrow> addr \<Rightarrow> 32 word \<Rightarrow> pstate \<Rightarrow> bool res" where
  "sys_create E file initial_size st =
     andthen (valid_string E file st) (\<lambda>u st1.
       let st2 = lock_acquire st1;
           r = filesys_create E (c_string (mem st2) file) initial_size st2
       in Normal (fst r) (lock_release (snd r)))"

definition sys_remove :: "env \<Rightarrow> addr \<Rightarrow> pstate \<Rightarrow> bool res" where
  "sys_remove E file st =
     andthen (valid_string E file st) (\<lambda>u st1.
       let st2 = lock_acquire st1;
           r = filesys_remove E (c_string (mem st2) file) st2
       in Normal (fst r) (lock_release (snd r)))"

text \<open>
  \<^verbatim>\<open>strlcpy (fd_s->name, file, strlen (file))\<close> copies all but the last character.
  A failed \<^verbatim>\<open>malloc\<close> returns NULL, which the next line dereferences.
\<close>
definition sys_open :: "env \<Rightarrow> addr \<Rightarrow> pstate \<Rightarrow> 32 word res" where
  "sys_open E file st =
     andthen (valid_string E file st) (\<lambda>u st1.
       let st2 = lock_acquire st1;
           r = filesys_open E (c_string (mem st2) file) st2
       in (case fst r of
             None \<Rightarrow> Normal (- 1) (lock_release (snd r))
           | Some fo \<Rightarrow>
               if \<not> malloc_ok E (snd r) then Stopped NullDeref (snd r)
               else
                 let st3 = snd r;
                     fd_s = \<lparr>fd = fd_index st3, name = butlast (c_string (mem st3) file),
                             file_pointer = fo\<rparr>;
                     st4 = st3\<lparr>fd_index := fd_index st3 + 1,
                               file_descriptors := file_descriptors st3 @ [fd_s]\<rparr>
                 in Normal (fd fd_s) (lock_release st4)))"

definition sys_close :: "env \<Rightarrow> 32 word \<Rightarrow> pstate \<Rightarrow> unit res" where
  "sys_close E n st =
     (if sint n < 2 then sys_exit (- 1) st
      else (case get_fdstruct st n of
              None \<Rightarrow> sys_exit (- 1) st
            | Some fd_s \<Rightarrow>
                let st1 = lock_acquire st;
                    st2 = file_close (file_pointer fd_s) st1;
                    st3 = st2\<lparr>file_descriptors := remove1 fd_s (file_descriptors st2)\<rparr>
                in Normal () (lock_release st3)))"

definition sys_write :: "env \<Rightarrow> 32 word \<Rightarrow> addr \<Rightarrow> 32 word \<Rightarrow> pstate \<Rightarrow> 32 word res" where
  "sys_write E n buffer sz st =
     (let st1 = lock_acquire st in
      if n = 0 then sys_exit (- 1) (lock_release st1)
      else if n = 1 then Normal sz (lock_release (putbuf buffer sz st1))
      else (case get_fdstruct st1 n of
              None \<Rightarrow> Normal (- 1) (lock_release st1)
            | Some fd_s \<Rightarrow>
                let r = file_write E (file_pointer fd_s) buffer sz st1
                in Normal (fst r) (lock_release (snd r))))"

definition sys_read :: "env \<Rightarrow> 32 word \<Rightarrow> addr \<Rightarrow> 32 word \<Rightarrow> pstate \<Rightarrow> 32 word res" where
  "sys_read E n buffer sz st =
     (let st1 = lock_acquire st in
      if n = 0 then Normal 0 (input_getc st1)
      else if n = 1 then sys_exit (- 1) (lock_release st1)
      else (case get_fdstruct st1 n of
              None \<Rightarrow> Normal (- 1) (lock_release st1)
            | Some fd_s \<Rightarrow>
                let r = file_read E (file_pointer fd_s) buffer sz st1
                in Normal (fst r) (lock_release (snd r))))"

definition sys_filesize :: "env \<Rightarrow> 32 word \<Rightarrow> pstate \<Rightarrow> 32 word res" where
  "sys_filesize E n st =
     (case get_fdstruct st n of
        None \<Rightarrow> Normal (- 1) st
      | Some fd_s \<Rightarrow>
          let r = file_length E (file_pointer fd_s) (lock_acquire st)
          in Normal (fst r) (lock_release (snd r)))"

definition sys_exec :: "env \<Rightarrow> addr \<Rightarrow> pstate \<Rightarrow> 32 word res" where
  "sys_exec E cmd_line st =
     andthen (valid_string E cmd_line st) (\<lambda>u st1.
       let r = process_execute E (c_string (mem st1) cmd_line) st1
       in Normal (fst r) (snd r))"

definition sys_wait :: "env \<Rightarrow> 32 word \<Rightarrow> pstate \<Rightarrow> 32 word res" where
  "sys_wait E pid st = (let r = process_wait E pid st in Normal (fst r) (snd r))"

definition sys_seek :: "env \<Rightarrow> 32 word \<Rightarrow> 32 word \<Rightarrow> pstate \<Rightarrow> unit res" where
  "sys_seek E n position st =
     (case get_fdstruct st n of
        None \<Rightarrow> Normal () st
      | Some fd_s \<Rightarrow>
          Normal () (lock_release (file_seek (file_pointer fd_s) position (lock_acquire st))))"

definition sys_tell :: "env \<Rightarrow> 32 word \<Rightarrow> pstate \<Rightarrow> 32 word res" where
  "sys_tell E n st =
     (case get_fdstruct st n of
        None \<Rightarrow> Normal (- 1) st
      | Some fd_s \<Rightarrow>
          let r = file_tell E (file_pointer fd_s) (lock_acquire st)
          in Normal (fst r) (lock_release (snd r)))"

text \<open>\<^verbatim>\<open>shutdown_power_off\<close> never returns.\<close>
definition sys_halt :: "pstate \<Rightarrow> 'a res" where
  "sys_halt st = Stopped PoweredOff (emit ShutdownPowerOff st)"

definition page_read_bytes :: "32 word \<Rightarrow> 32 word" where
  "page_read_bytes read_bytes = (if read_bytes < PGSIZE then read_bytes else PGSIZE)"

lemma page_read_bytes_measure:
  "0 < read_bytes \<Longrightarrow> unat (read_bytes - page_read_bytes read_bytes) < unat read_bytes"
  unfolding page_read_bytes_def PGSIZE_def by unat_arith

text \<open>The \<^verbatim>\<open>while (read_bytes > 0)\<close> loop of \<^verbatim>\<open>sys_mmap\<close>, one page a turn.\<close>
function sys_mmap_loop ::
  "env \<Rightarrow> file_handle option \<Rightarrow> 32 word \<Rightarrow> addr \<Rightarrow> 32 word \<Rightarrow> 32 word \<Rightarrow> pstate \<Rightarrow> 32 word res"
  where
  "sys_mmap_loop E f ofs a read_bytes zero_bytes st =
     (if 0 < read_bytes then
        (if \<not> fst (spt_link_mmap E f ofs a (page_read_bytes read_bytes)
                      (PGSIZE - page_read_bytes read_bytes) True st)
         then Normal (- 1)
                (snd (spt_link_mmap E f ofs a (page_read_bytes read_bytes)
                        (PGSIZE - page_read_bytes read_bytes) True st))
         else sys_mmap_loop E f (ofs + page_read_bytes read_bytes) (a + PGSIZE)
                (read_bytes - page_read_bytes read_bytes)
                (zero_bytes - (PGSIZE - page_read_bytes read_bytes))
                (snd (spt_link_mmap E f ofs a (page_read_bytes read_bytes)
                        (PGSIZE - page_read_bytes read_bytes) True st)))
      else Normal (mapid st) (st\<lparr>mapid := mapid st + 1\<rparr>))"
  by pat_completeness auto
termination
  by (relation "measure (\<lambda>(E, f, ofs, a, read_bytes, zero_bytes, st). unat read_bytes)")
     (auto simp: page_read_bytes_measure)

text \<open>
  \<^verbatim>\<open>fd_s->file_pointer\<close> is read for \<^verbatim>\<open>file_length\<close> before \<^verbatim>\<open>fd_s\<close> is tested:
  with no such descriptor that read dereferences NULL.
\<close>
definition sys_mmap :: "env \<Rightarrow> 32 word \<Rightarrow> addr \<Rightarrow> pstate \<Rightarrow> 32 word res" where
  "sys_mmap E n a st =
     (case get_fdstruct st n of
        None \<Rightarrow> Stopped NullDeref st
      | Some fd_s \<Rightarrow>
          let r = file_length E (file_pointer fd_s) st
          in if \<not> is_valid_user_addr E a \<or> a mod PGSIZE \<noteq> 0 \<or> fst r = 0
             then Normal (- 1) (snd r)
             else
               let r' = file_reopen E (file_pointer fd_s) (snd r)
               in sys_mmap_loop E (fst r') 0 a (fst r) 0 (snd r'))"

definition sys_munmap :: "32 word \<Rightarrow> pstate \<Rightarrow> unit res" where
  "sys_munmap m st = Normal () (remove_mapid m st)"

subsection \<open>The dispatcher\<close>

definition get_syscall_type :: "env \<Rightarrow> intr_frame \<Rightarrow> pstate \<Rightarrow> 32 word res" where
  "get_syscall_type E f st =
     andthen (valid_uaddr E (esp f) 4 st) (\<lambda>u st'. Normal (read32 (mem st') (esp f)) st')"

text \<open>
  The loop of \<^verbatim>\<open>get_syscall_arg\<close>. Each slot is checked by
  \<^verbatim>\<open>check_and_pin_addr (ptr, sizeof (uint32_t))\<close>: the second argument, the stack
  pointer of the stack-growth rule, is the constant 4.
\<close>
fun get_syscall_arg_loop :: "env \<Rightarrow> addr \<Rightarrow> nat \<Rightarrow> pstate \<Rightarrow> 32 word list res" where
  "get_syscall_arg_loop E ptr 0 st = Normal [] st"
| "get_syscall_arg_loop E ptr (Suc argc) st =
     (case check_and_pin_addr E ptr 4 st of
        Stopped why st' \<Rightarrow> Stopped why st'
      | Normal spte st' \<Rightarrow>
          (case get_syscall_arg_loop E (ptr + 4) argc st' of
             Stopped why st'' \<Rightarrow> Stopped why st''
           | Normal args st'' \<Rightarrow> Normal (read32 (mem st') ptr # args) st''))"

definition get_syscall_arg :: "env \<Rightarrow> intr_frame \<Rightarrow> nat \<Rightarrow> pstate \<Rightarrow> 32 word list res" where
  "get_syscall_arg E f argc st = get_syscall_arg_loop E (esp f + 4) argc st"

definition andthen_opt ::
  "'a res option \<Rightarrow> ('a \<Rightarrow> pstate \<Rightarrow> 'b res option) \<Rightarrow> 'b res option" where
  "andthen_opt r k =
     (case r of
        None \<Rightarrow> None
      | Some (Stopped why st) \<Rightarrow> Some (Stopped why st)
      | Some (Normal v st) \<Rightarrow> k v st)"

text \<open>\<^verbatim>\<open>ASSERT (is_valid_user_addr (str)); unpin_string (str);\<close> and the result in eax.\<close>
definition assert_unpin_string ::
  "env \<Rightarrow> addr \<Rightarrow> intr_frame \<Rightarrow> pstate \<Rightarrow> intr_frame res option" where
  "assert_unpin_string E str f st =
     (if \<not> is_valid_user_addr E str then Some (Stopped Panicked st)
      else (case unpin_string str st of None \<Rightarrow> None | Some st' \<Rightarrow> Some (Normal f st')))"

text \<open>The \<^verbatim>\<open>switch (type)\<close> of \<^verbatim>\<open>syscall_handler\<close>; None is a number with no case.\<close>
fun syscall_switch ::
  "env \<Rightarrow> syscall option \<Rightarrow> intr_frame \<Rightarrow> pstate \<Rightarrow> intr_frame res option" where
  "syscall_switch E (Some SYS_CREATE) f st =
     andthen_opt (Some (get_syscall_arg E f 2 st)) (\<lambda>args st1.
     andthen_opt (check_and_pin_string E (args ! 0) (esp f) st1) (\<lambda>u st2.
     andthen_opt (Some (sys_create E (args ! 0) (args ! 1) st2)) (\<lambda>r st3.
       assert_unpin_string E (args ! 0) (f\<lparr>eax := of_bool r\<rparr>) st3)))"
| "syscall_switch E (Some SYS_REMOVE) f st =
     andthen_opt (Some (get_syscall_arg E f 1 st)) (\<lambda>args st1.
     andthen_opt (check_and_pin_string E (args ! 0) (esp f) st1) (\<lambda>u st2.
     andthen_opt (Some (sys_remove E (args ! 0) st2)) (\<lambda>r st3.
       Some (Normal (f\<lparr>eax := of_bool r\<rparr>) st3))))"
| "syscall_switch E (Some SYS_OPEN) f st =
     andthen_opt (Some (get_syscall_arg E f 1 st)) (\<lambda>args st1.
     andthen_opt (check_and_pin_string E (args ! 0) (esp f) st1) (\<lambda>u st2.
     andthen_opt (Some (sys_open E (args ! 0) st2)) (\<lambda>r st3.
       assert_unpin_string E (args ! 0) (f\<lparr>eax := r\<rparr>) st3)))"
| "syscall_switch E (Some SYS_CLOSE) f st =
     andthen_opt (Some (get_syscall_arg E f 1 st)) (\<lambda>args st1.
     andthen_opt (Some (sys_close E (args ! 0) st1)) (\<lambda>u st2.
       Some (Normal f st2)))"
| "syscall_switch E (Some SYS_EXIT) f st =
     andthen_opt (Some (get_syscall_arg E f 1 st)) (\<lambda>args st1.
       Some (sys_exit (args ! 0) st1))"
| "syscall_switch E (Some SYS_WRITE) f st =
     andthen_opt (Some (get_syscall_arg E f 3 st)) (\<lambda>args st1.
     andthen_opt (Some (check_and_pin_buffer E (args ! 1) (args ! 2) (esp f) False st1)) (\<lambda>u st2.
     andthen_opt (Some (sys_write E (args ! 0) (args ! 1) (args ! 2) st2)) (\<lambda>r st3.
       Some (Normal (f\<lparr>eax := r\<rparr>) (unpin_buffer (args ! 1) (args ! 2) st3)))))"
| "syscall_switch E (Some SYS_READ) f st =
     andthen_opt (Some (get_syscall_arg E f 3 st)) (\<lambda>args st1.
     andthen_opt (Some (check_and_pin_buffer E (args ! 1) (args ! 2) (esp f) True st1)) (\<lambda>u st2.
     andthen_opt (Some (sys_read E (args ! 0) (args ! 1) (args ! 2) st2)) (\<lambda>r st3.
       Some (Normal (f\<lparr>eax := r\<rparr>) (unpin_buffer (args ! 1) (args ! 2) st3)))))"
| "syscall_switch E (Some SYS_FILESIZE) f st =
     andthen_opt (Some (get_syscall_arg E f 1 st)) (\<lambda>args st1.
     andthen_opt (Some (sys_filesize E (args ! 0) st1)) (\<lambda>r st2.
       Some (Normal (f\<lparr>eax := r\<rparr>) st2)))"
| "syscall_switch E (Some SYS_EXEC) f st =
     andthen_opt (Some (get_syscall_arg E f 1 st)) (\<lambda>args st1.
     andthen_opt (check_and_pin_string E (args ! 0) (esp f) st1) (\<lambda>u st2.
     andthen_opt (Some (sys_exec E (args ! 0) st2)) (\<lambda>r st3.
       assert_unpin_string E (args ! 0) (f\<lparr>eax := r\<rparr>) st3)))"
| "syscall_switch E (Some SYS_WAIT) f st =
     andthen_opt (Some (get_syscall_arg E f 1 st)) (\<lambda>args st1.
     andthen_opt (Some (sys_wait E (args ! 0) st1)) (\<lambda>r st2.
       Some (Normal (f\<lparr>eax := r\<rparr>) st2)))"
| "syscall_switch E (Some SYS_SEEK) f st =
     andthen_opt (Some (get_syscall_arg E f 2 st)) (\<lambda>args st1.
     andthen_opt (Some (sys_seek E (args ! 0) (args ! 1) st1)) (\<lambda>u st2.
       Some (Normal f st2)))"
| "syscall_switch E (Some SYS_TELL) f st =
     andthen_opt (Some (get_syscall_arg E f 1 st)) (\<lambda>args st1.
     andthen_opt (Some (sys_tell E (args ! 0) st1)) (\<lambda>r st2.
       Some (Normal (f\<lparr>eax := r\<rparr>) st2)))"
| "syscall_switch E (Some SYS_MMAP) f st =
     andthen_opt (Some (get_syscall_arg E f 2 st)) (\<lambda>args st1.
     andthen_opt (Some (sys_mmap E (args ! 0) (args ! 1) st1)) (\<lambda>r st2.
       Some (Normal (f\<lparr>eax := r\<rparr>) st2)))"
| "syscall_switch E (Some SYS_MUNMAP) f st =
     andthen_opt (Some (get_syscall_arg E f 1 st)) (\<lambda>args st1.
     andthen_opt (Some (sys_munmap (args ! 0) st1)) (\<lambda>u st2.
       Some (Normal f st2)))"
| "syscall_switch E (Some SYS_HALT) f st = Some (sys_halt st)"
| "syscall_switch E None f st = Some (Normal f st)"

text \<open>
  \<^verbatim>\<open>syscall_handler\<close>: read the number, pin the stack pointer's page, run the case,
  unpin the stack pointer's page. A handler that does not return skips that last step.
\<close>
definition syscall_handler :: "env \<Rightarrow> intr_frame \<Rightarrow> pstate \<Rightarrow> intr_frame res option" where
  "syscall_handler E f st =
     andthen_opt (Some (get_syscall_type E f st)) (\<lambda>type st0.
     andthen_opt (Some (check_and_pin_addr E (esp f) (esp f) st0)) (\<lambda>spte st1.
     andthen_opt (syscall_switch E (syscall_nr E type) f st1) (\<lambda>f' st2.
       Some (Normal f' (unpin_addr (esp f) st2)))))"

subsection \<open>The exit path's outside calls\<close>

text \<open>
  What \<^verbatim>\<open>sys_exit\<close> calls, in order: close each open descriptor, print the exit line,
  release each mapping (inside \<^verbatim>\<open>thread_exit\<close>), leave the thread.
\<close>
definition exit_trace :: "pstate \<Rightarrow> 32 word \<Rightarrow> event list" where
  "exit_trace st status =
     map (\<lambda>d. FileClose (file_pointer d)) (file_descriptors st)
       @ [PrintExit (thread_name st) status]
       @ map RemoveMapid (remdups (map fst (mmap_list st)))
       @ [ThreadExit]"

subsection \<open>A concrete process\<close>

text \<open>
  An environment and a process state for the concrete runs below. The environment uses
  the usual Pintos constants (\<^verbatim>\<open>PHYS_BASE\<close> at 3 GB, the numbering of
  lib/syscall-nr.h), a stack-growth rule of the shape of section 4.2 (at most 32 bytes
  below the stack pointer, at most 8 MB of stack), a page creation that fails where a
  page already exists, and a filesystem whose files are 5000 bytes long.

  The process has a read-only code page, a data page, two stack pages with an unmapped
  hole between them, and one open file, descriptor 2. Its memory holds seven system
  calls ready on the stack: \<^verbatim>\<open>remove ("a")\<close> at 0xBFFFF100, \<^verbatim>\<open>exit\<close> at the last
  word of the lower stack page, \<^verbatim>\<open>mmap (2, NULL)\<close> at 0xBFFFF200,
  \<^verbatim>\<open>write (1, NULL, 0)\<close> at 0xBFFFF300, \<^verbatim>\<open>read (2, PHYS_BASE, 4)\<close> at 0xBFFFF400,
  \<^verbatim>\<open>open ("a")\<close> at 0xBFFFF500 and \<^verbatim>\<open>close (1)\<close> at 0xBFFFF600; the string "a"
  is in the code page.
\<close>
definition demo_env :: env where
  "demo_env =
     \<lparr>phys_base = 0xC0000000,
      syscall_nr = map_of
        [(0, SYS_HALT), (1, SYS_EXIT), (2, SYS_EXEC), (3, SYS_WAIT), (4, SYS_CREATE),
         (5, SYS_REMOVE), (6, SYS_OPEN), (7, SYS_FILESIZE), (8, SYS_READ), (9, SYS_WRITE),
         (10, SYS_SEEK), (11, SYS_TELL), (12, SYS_CLOSE), (13, SYS_MMAP), (14, SYS_MUNMAP)],
      is_stack_growth = (\<lambda>a sp. sp - 32 \<le> a \<and> a < 0xC0000000 \<and> 0xC0000000 - a \<le> 0x800000),
      stack_growth_ok = (\<lambda>st a. True),
      spt_link_ok = (\<lambda>st a. spt st (pg_round_down a) = None),
      malloc_ok = (\<lambda>st. True),
      filesys_create_res = (\<lambda>st path sz. True),
      filesys_remove_res = (\<lambda>st path. True),
      filesys_open_res = (\<lambda>st path. Some 9),
      file_read_res = (\<lambda>st fp sz. []),
      file_write_res = (\<lambda>st fp bs. of_nat (length bs)),
      file_length_res = (\<lambda>st fp. 5000),
      file_tell_res = (\<lambda>st fp. 0),
      file_reopen_res = (\<lambda>st fp. Some (Suc fp)),
      process_execute_res = (\<lambda>st cmd. - 1),
      process_wait_res = (\<lambda>st pid. - 1)\<rparr>"

definition demo_page :: "provenance \<Rightarrow> bool \<Rightarrow> spt_entry" where
  "demo_page t w =
     \<lparr>ptype = t, writeable = w, pinned = False, pfile = None, pofs = 0, pread_bytes = 0,
      pzero_bytes = 0\<rparr>"

definition demo_mem :: "addr \<Rightarrow> byte" where
  "demo_mem =
     write_bytes (write_bytes (write_bytes (write_bytes (write_bytes (write_bytes
       (write_bytes (write_bytes (\<lambda>a. 0)
       0xBFFFF100 [5, 0, 0, 0, 0x10, 0x80, 0x04, 0x08])
       0x08048010 [97, 0])
       0xBFFFCFFC [1, 0, 0, 0])
       0xBFFFF200 [13, 0, 0, 0, 2, 0, 0, 0, 0, 0, 0, 0])
       0xBFFFF300 [9, 0, 0, 0, 1, 0, 0, 0, 0, 0, 0, 0, 0, 0, 0, 0])
       0xBFFFF400 [8, 0, 0, 0, 2, 0, 0, 0, 0, 0, 0, 0xC0, 4, 0, 0, 0])
       0xBFFFF500 [6, 0, 0, 0, 0x10, 0x80, 0x04, 0x08])
       0xBFFFF600 [12, 0, 0, 0, 1, 0, 0, 0]"

definition demo_state :: pstate where
  "demo_state =
     \<lparr>spt = [0x08048000 \<mapsto> demo_page FILE_EXECUTABLE False,
             0x10001000 \<mapsto> demo_page ZERO True,
             0xBFFFC000 \<mapsto> demo_page FRAMED True,
             0xBFFFF000 \<mapsto> demo_page FRAMED True],
      file_descriptors = [\<lparr>fd = 2, name = [97], file_pointer = 7\<rparr>],
      fd_index = 3, mapid = 0, mmap_list = [], exit_status = 0, thread_name = [109],
      filesystem_lock = False, mem = demo_mem, trace = []\<rparr>"

text \<open>The same process with its data page registered as mapping 0.\<close>
definition mapped_state :: pstate where
  "mapped_state = demo_state\<lparr>mmap_list := [(0, 0x10001000)]\<rparr>"

subsection \<open>Outcomes of validation\<close>

text \<open>
  A fatal outcome: the call ended the process with exit status -1 and, since the state
  it started from, made only the outside calls of the exit path. A checked outcome is
  either fatal or a normal return that changed nothing but the supplemental page table.
\<close>
definition fatal :: "pstate \<Rightarrow> 'a res \<Rightarrow> bool" where
  "fatal st r =
     (case r of
        Normal v st' \<Rightarrow> False
      | Stopped why st' \<Rightarrow>
          why = Exited \<and> exit_status st' = - 1 \<and> trace st' = trace st @ exit_trace st (- 1))"

definition only_spt :: "pstate \<Rightarrow> pstate \<Rightarrow> bool" where
  "only_spt st st' = (st' = st\<lparr>spt := spt st'\<rparr>)"

definition checked :: "pstate \<Rightarrow> 'a res \<Rightarrow> bool" where
  "checked st r = (case r of Normal v st' \<Rightarrow> only_spt st st' | Stopped why st' \<Rightarrow> fatal st r)"


section \<open>Properties\<close>

subsection \<open>What the exit path keeps and changes\<close>

lemma emit_simps:
  "trace (emit e st) = trace st @ [e]"
  "spt (emit e st) = spt st"
  "file_descriptors (emit e st) = file_descriptors st"
  "fd_index (emit e st) = fd_index st"
  "mapid (emit e st) = mapid st"
  "mmap_list (emit e st) = mmap_list st"
  "exit_status (emit e st) = exit_status st"
  "thread_name (emit e st) = thread_name st"
  "filesystem_lock (emit e st) = filesystem_lock st"
  "mem (emit e st) = mem st"
  by (simp_all add: emit_def)

lemma remove_mapid_frame:
  "file_descriptors (remove_mapid m st) = file_descriptors st"
  "exit_status (remove_mapid m st) = exit_status st"
  "mem (remove_mapid m st) = mem st"
  "filesystem_lock (remove_mapid m st) = filesystem_lock st"
  "mapid (remove_mapid m st) = mapid st"
  "trace (remove_mapid m st) = trace st @ [RemoveMapid m]"
  "mmap_list (remove_mapid m st) = filter (\<lambda>r. fst r \<noteq> m) (mmap_list st)"
  by (simp_all add: remove_mapid_def emit_simps)

lemma fold_remove_mapid_frame:
  "file_descriptors (fold remove_mapid ms st) = file_descriptors st"
  "exit_status (fold remove_mapid ms st) = exit_status st"
  "mem (fold remove_mapid ms st) = mem st"
  "filesystem_lock (fold remove_mapid ms st) = filesystem_lock st"
  "mapid (fold remove_mapid ms st) = mapid st"
  by (induction ms arbitrary: st; simp add: remove_mapid_frame)+

lemma fold_remove_mapid_trace:
  "trace (fold remove_mapid ms st) = trace st @ map RemoveMapid ms"
  by (induction ms arbitrary: st) (simp_all add: remove_mapid_frame)

lemma fold_remove_mapid_mmap_list:
  "mmap_list (fold remove_mapid ms st) = filter (\<lambda>r. fst r \<notin> set ms) (mmap_list st)"
proof (induction ms arbitrary: st)
  case Nil
  show ?case by simp
next
  case (Cons m ms)
  show ?case
    by (simp add: Cons.IH remove_mapid_frame conj_commute)
qed

lemma sys_exit_loop_frame:
  "file_descriptors (sys_exit_loop fds st) = (if fds = [] then file_descriptors st else [])"
  "exit_status (sys_exit_loop fds st) = exit_status st"
  "mem (sys_exit_loop fds st) = mem st"
  "filesystem_lock (sys_exit_loop fds st) = filesystem_lock st"
  "mapid (sys_exit_loop fds st) = mapid st"
  "mmap_list (sys_exit_loop fds st) = mmap_list st"
  "spt (sys_exit_loop fds st) = spt st"
  "thread_name (sys_exit_loop fds st) = thread_name st"
  by (induction fds arbitrary: st; simp add: emit_simps)+

lemma sys_exit_loop_trace:
  "trace (sys_exit_loop fds st) = trace st @ map (\<lambda>d. FileClose (file_pointer d)) fds"
  by (induction fds arbitrary: st) (simp_all add: emit_simps)

lemma sys_exit_stops:
  "\<exists>st'. (sys_exit status st :: 'a res) = Stopped Exited st' \<and> exit_status st' = status
     \<and> file_descriptors st' = [] \<and> mem st' = mem st \<and> filesystem_lock st' = filesystem_lock st"
  by (simp add: sys_exit_def thread_exit_def Let_def emit_simps fold_remove_mapid_frame
      sys_exit_loop_frame)

lemma exit_code_sys_exit: "exit_code (sys_exit status st) = Some status"
  using sys_exit_stops [of status st] by (metis exit_code.simps(1))

subsection \<open>Console input\<close>

text \<open>
  C10. For every buffer and every length, \<^verbatim>\<open>read\<close> on descriptor 0 returns 0, leaves
  the user memory (hence the caller's buffer) as it was, and its only outside call is one
  \<^verbatim>\<open>input_getc\<close>: exactly one character is taken from the keyboard.
\<close>
theorem sys_read_console:
  "returned (sys_read E 0 buffer sz st) = Some 0
   \<and> mem (state_of (sys_read E 0 buffer sz st)) = mem st
   \<and> trace (state_of (sys_read E 0 buffer sz st)) = trace st @ [InputGetc]"
  by (simp add: sys_read_def lock_acquire_def input_getc_def emit_def)

subsection \<open>The filesystem lock\<close>

text \<open>Every path of \<^verbatim>\<open>sys_write\<close> and every other path of \<^verbatim>\<open>sys_read\<close> releases the lock.\<close>
lemma sys_exit_keeps_lock:
  "filesystem_lock (state_of (sys_exit status st :: 'a res)) = filesystem_lock st"
  using sys_exit_stops [of status st, where ?'a = 'a] by auto

lemma sys_write_releases_lock:
  "\<not> filesystem_lock (state_of (sys_write E n buffer sz st))"
  by (simp add: sys_write_def Let_def sys_exit_keeps_lock lock_release_def putbuf_def
      file_write_def emit_simps split: option.splits)

lemma sys_read_file_releases_lock:
  "n \<noteq> 0 \<Longrightarrow> \<not> filesystem_lock (state_of (sys_read E n buffer sz st))"
  by (simp add: sys_read_def Let_def sys_exit_keeps_lock lock_release_def file_read_def
      emit_simps split: option.splits)

text \<open>
  C3 (violated by the code). The claim: the filesystem lock is never still held when a
  handler returns to the dispatcher. On descriptor 0 \<^verbatim>\<open>sys_read\<close> acquires the lock,
  calls \<^verbatim>\<open>input_getc\<close> and returns 0 with no \<^verbatim>\<open>lock_release\<close>: it returns
  normally and the lock is held.
\<close>
theorem sys_read_console_holds_lock:
  "returned (sys_read E 0 buffer sz st) = Some 0
   \<and> filesystem_lock (state_of (sys_read E 0 buffer sz st))"
  by (simp add: sys_read_def lock_acquire_def input_getc_def emit_def)

subsection \<open>Process exit\<close>

lemma remove_mapid_spt:
  "spt (remove_mapid m st) p = (if (m, p) \<in> set (mmap_list st) then None else spt st p)"
  by (simp add: remove_mapid_def emit_simps)

lemma fold_remove_mapid_spt_None:
  "(\<exists>m\<in>set ms. (m, p) \<in> set (mmap_list st)) \<or> spt st p = None
     \<Longrightarrow> spt (fold remove_mapid ms st) p = None"
proof (induction ms arbitrary: st)
  case Nil
  then show ?case by simp
next
  case (Cons m ms)
  let ?st1 = "remove_mapid m st"
  have "(\<exists>m'\<in>set ms. (m', p) \<in> set (mmap_list ?st1)) \<or> spt ?st1 p = None"
  proof (cases "(m, p) \<in> set (mmap_list st) \<or> spt st p = None")
    case True
    then show ?thesis by (auto simp: remove_mapid_spt)
  next
    case False
    with Cons.prems obtain m' where m': "m' \<in> set ms" "(m', p) \<in> set (mmap_list st)"
      by auto
    with False have "m' \<noteq> m" by auto
    with m' have "(m', p) \<in> set (mmap_list ?st1)"
      by (simp add: remove_mapid_frame)
    with m'(1) show ?thesis by blast
  qed
  then have "spt (fold remove_mapid ms ?st1) p = None"
    by (rule Cons.IH)
  then show ?case by simp
qed

lemma sys_exit_state:
  "state_of (sys_exit status st :: 'a res) =
     emit ThreadExit (fold remove_mapid (remdups (map fst (mmap_list st)))
       (emit (PrintExit (thread_name st) status)
          ((sys_exit_loop (file_descriptors st) st)\<lparr>exit_status := status\<rparr>)))"
  by (simp add: sys_exit_def thread_exit_def Let_def emit_def sys_exit_loop_frame)

lemma sys_exit_trace:
  "trace (state_of (sys_exit status st :: 'a res)) = trace st @ exit_trace st status"
  by (simp add: sys_exit_state emit_simps fold_remove_mapid_trace sys_exit_loop_trace
      exit_trace_def)

text \<open>
  C8. \<^verbatim>\<open>sys_exit\<close> ends the process with the given status recorded; on the way every
  open descriptor is closed (the table is empty and each file got its
  \<^verbatim>\<open>file_close\<close>), then the exit line is printed, then every mapping is released
  (none is registered any more and the pages registered to one have no SPT entry), then
  the thread exits. The release of the mappings is the part of \<^verbatim>\<open>thread_exit\<close>.
\<close>
theorem sys_exit_releases:
  "exit_code (sys_exit status st :: unit res) = Some status
   \<and> file_descriptors (state_of (sys_exit status st :: unit res)) = []
   \<and> mmap_list (state_of (sys_exit status st :: unit res)) = []
   \<and> (\<forall>r\<in>set (mmap_list st). spt (state_of (sys_exit status st :: unit res)) (snd r) = None)
   \<and> trace (state_of (sys_exit status st :: unit res)) = trace st
       @ map (\<lambda>d. FileClose (file_pointer d)) (file_descriptors st)
       @ [PrintExit (thread_name st) status]
       @ map RemoveMapid (remdups (map fst (mmap_list st)))
       @ [ThreadExit]"
proof -
  let ?st' = "state_of (sys_exit status st :: unit res)"
  have fds: "file_descriptors ?st' = []"
    by (simp add: sys_exit_state emit_simps fold_remove_mapid_frame sys_exit_loop_frame)
  have maps: "mmap_list ?st' = []"
    by (simp add: sys_exit_state emit_simps fold_remove_mapid_mmap_list sys_exit_loop_frame
        filter_empty_conv)
  have pages: "spt ?st' (snd r) = None" if "r \<in> set (mmap_list st)" for r
  proof -
    have "(fst r, snd r) \<in> set (mmap_list st)" using that by simp
    then have "\<exists>m\<in>set (remdups (map fst (mmap_list st))). (m, snd r) \<in> set (mmap_list st)"
      using that by force
    then show ?thesis
      by (simp add: sys_exit_state emit_simps sys_exit_loop_frame
          fold_remove_mapid_spt_None [where st = "emit (PrintExit (thread_name st) status)
             ((sys_exit_loop (file_descriptors st) st)\<lparr>exit_status := status\<rparr>)"])
  qed
  have tr: "trace ?st' = trace st @ exit_trace st status"
    by (rule sys_exit_trace)
  show ?thesis
    using fds maps pages tr by (simp add: exit_code_sys_exit exit_trace_def)
qed

theorem sys_exit_releases_witness:
  "exit_code (sys_exit 3 mapped_state :: unit res) = Some 3
   \<and> file_descriptors (state_of (sys_exit 3 mapped_state :: unit res)) = []
   \<and> mmap_list (state_of (sys_exit 3 mapped_state :: unit res)) = []
   \<and> spt mapped_state 0x10001000 \<noteq> None
   \<and> spt (state_of (sys_exit 3 mapped_state :: unit res)) 0x10001000 = None
   \<and> trace (state_of (sys_exit 3 mapped_state :: unit res))
       = [FileClose 7, PrintExit [109] 3, RemoveMapid 0, ThreadExit]"
  using sys_exit_releases [of 3 mapped_state]
  by (simp add: mapped_state_def demo_state_def)


subsection \<open>Descriptors\<close>

text \<open>
  C4 (violated by the code). The claim: \<^verbatim>\<open>mmap\<close> on a descriptor the process does not
  own returns -1. \<^verbatim>\<open>sys_mmap\<close> reads \<^verbatim>\<open>fd_s->file_pointer\<close> before it tests
  \<^verbatim>\<open>fd_s\<close>: with a descriptor that is not in the table the call dereferences NULL and
  returns nothing.
\<close>
theorem sys_mmap_unknown_descriptor:
  "get_fdstruct st n = None \<Longrightarrow> sys_mmap E n a st = Stopped NullDeref st"
  by (simp add: sys_mmap_def)

text \<open>The concrete process has not opened descriptor 5.\<close>
theorem sys_mmap_unknown_descriptor_faults:
  "get_fdstruct demo_state 5 = None
   \<and> sys_mmap demo_env 5 0x10000000 demo_state = Stopped NullDeref demo_state
   \<and> returned (sys_mmap demo_env 5 0x10000000 demo_state) = None"
proof -
  have none: "get_fdstruct demo_state 5 = None"
    by (simp add: get_fdstruct_def demo_state_def)
  then show ?thesis
    by (simp add: sys_mmap_unknown_descriptor)
qed

text \<open>
  C6, as amended. For a descriptor that is not open and is neither 0 nor 1: read and
  write return -1 (and release the lock), seek does nothing, tell and filesize return
  -1, all without ending the process and with the descriptor table as it was; close
  ends the process with status -1, and its exit path closes every descriptor the
  process still holds, so the table ends empty.
\<close>
theorem unopened_descriptor:
  assumes "get_fdstruct st n = None" and "n \<noteq> 0" and "n \<noteq> 1"
  shows "sys_read E n buffer sz st = Normal (- 1) (st\<lparr>filesystem_lock := False\<rparr>)
    \<and> sys_write E n buffer sz st = Normal (- 1) (st\<lparr>filesystem_lock := False\<rparr>)
    \<and> sys_seek E n pos st = Normal () st
    \<and> sys_tell E n st = Normal (- 1) st
    \<and> sys_filesize E n st = Normal (- 1) st
    \<and> exit_code (sys_close E n st) = Some (- 1)
    \<and> file_descriptors (state_of (sys_close E n st)) = []
    \<and> trace (state_of (sys_close E n st)) = trace st @ exit_trace st (- 1)"
proof -
  have look: "get_fdstruct (lock_acquire st) n = None"
    using assms(1) by (simp add: get_fdstruct_def lock_acquire_def)
  have rd: "sys_read E n buffer sz st = Normal (- 1) (st\<lparr>filesystem_lock := False\<rparr>)"
    using assms(2,3) look by (simp add: sys_read_def lock_acquire_def lock_release_def)
  have wr: "sys_write E n buffer sz st = Normal (- 1) (st\<lparr>filesystem_lock := False\<rparr>)"
    using assms(2,3) look by (simp add: sys_write_def lock_acquire_def lock_release_def)
  have others: "sys_seek E n pos st = Normal () st" "sys_tell E n st = Normal (- 1) st"
    "sys_filesize E n st = Normal (- 1) st"
    using assms(1) by (simp_all add: sys_seek_def sys_tell_def sys_filesize_def)
  have cl: "sys_close E n st = sys_exit (- 1) st"
    using assms(1) by (simp add: sys_close_def)
  have fds: "file_descriptors (state_of (sys_exit (- 1) st :: unit res)) = []"
    by (simp add: sys_exit_state emit_simps fold_remove_mapid_frame sys_exit_loop_frame)
  show ?thesis
    using rd wr others by (simp add: cl exit_code_sys_exit fds sys_exit_trace)
qed

theorem unopened_descriptor_witness:
  "sys_read demo_env 5 0x10001000 4 demo_state = Normal (- 1) (demo_state\<lparr>filesystem_lock := False\<rparr>)
   \<and> sys_tell demo_env 5 demo_state = Normal (- 1) demo_state
   \<and> exit_code (sys_close demo_env 5 demo_state) = Some (- 1)
   \<and> file_descriptors (state_of (sys_close demo_env 5 demo_state)) = []"
proof -
  have "get_fdstruct demo_state 5 = None"
    by (simp add: get_fdstruct_def demo_state_def)
  from unopened_descriptor [OF this, of demo_env "0x10001000" 4 0] show ?thesis
    by simp
qed

text \<open>
  C6 as stated fails for close: the concrete process holds descriptor 2, closes the
  unopened descriptor 5, and its table is empty afterwards, not unchanged.
\<close>
theorem sys_close_unopened_empties_table:
  "get_fdstruct demo_state 5 = None
   \<and> file_descriptors demo_state = [\<lparr>fd = 2, name = [97], file_pointer = 7\<rparr>]
   \<and> file_descriptors (state_of (sys_close demo_env 5 demo_state)) = []"
  by (simp add: sys_close_def get_fdstruct_def demo_state_def sys_exit_state emit_simps
      fold_remove_mapid_frame sys_exit_loop_frame)


subsection \<open>Memory mapping\<close>






declare sys_mmap_loop.simps [simp del]








subsection \<open>Validation of pointer arguments\<close>

lemma only_spt_refl: "only_spt st st"
  by (simp add: only_spt_def)

lemma only_spt_trans:
  assumes "only_spt st st1" and "only_spt st1 st2"
  shows "only_spt st st2"
proof -
  have "st2 = st1\<lparr>spt := spt st2\<rparr>" "st1 = st\<lparr>spt := spt st1\<rparr>"
    using assms by (simp_all add: only_spt_def)
  then have "st2 = (st\<lparr>spt := spt st1\<rparr>)\<lparr>spt := spt st2\<rparr>"
    by simp
  then show ?thesis
    by (simp add: only_spt_def)
qed

lemma only_spt_fields:
  assumes "only_spt st st'"
  shows "trace st' = trace st" "mem st' = mem st" "file_descriptors st' = file_descriptors st"
    "mmap_list st' = mmap_list st" "thread_name st' = thread_name st"
proof -
  have eq: "st' = st\<lparr>spt := spt st'\<rparr>"
    using assms by (simp add: only_spt_def)
  show "trace st' = trace st" by (subst eq) simp
  show "mem st' = mem st" by (subst eq) simp
  show "file_descriptors st' = file_descriptors st" by (subst eq) simp
  show "mmap_list st' = mmap_list st" by (subst eq) simp
  show "thread_name st' = thread_name st" by (subst eq) simp
qed

lemma fatal_sys_exit:
  assumes "only_spt st st1"
  shows "fatal st (sys_exit (- 1) st1)"
proof -
  obtain st' where st': "(sys_exit (- 1) st1 :: 'a res) = Stopped Exited st'"
    "exit_status st' = - 1"
    using sys_exit_stops [of "- 1" st1] by blast
  have "trace st' = trace st1 @ exit_trace st1 (- 1)"
    using sys_exit_trace [of "- 1" st1, where ?'a = 'a] st'(1) by simp
  also have "\<dots> = trace st @ exit_trace st (- 1)"
    using only_spt_fields [OF assms] by (simp add: exit_trace_def)
  finally show ?thesis
    using st' by (simp add: fatal_def)
qed

lemma only_spt_spt_load: "only_spt st (spt_load a st)"
  by (simp add: only_spt_def spt_load_def split: option.splits)

lemma only_spt_stack_growth: "only_spt st (snd (spt_stack_growth E a st))"
  by (simp add: only_spt_def spt_stack_growth_def spt_load_def get_spte_def
      split: option.splits)

lemma checked_fatal: "fatal st r \<Longrightarrow> checked st r"
  by (cases r) (simp_all add: checked_def fatal_def)

lemma checked_Normal: "only_spt st st' \<Longrightarrow> checked st (Normal v st')"
  by (simp add: checked_def)

lemma checked_check_and_pin_addr:
  assumes "only_spt st st1"
  shows "checked st (check_and_pin_addr E a sp st1)"
proof (cases "get_spte st1 a")
  case (Some spte)
  have "only_spt st (spt_load a st1)"
    by (rule only_spt_trans [OF assms only_spt_spt_load])
  then show ?thesis
    using Some by (simp add: check_and_pin_addr_def checked_Normal)
next
  case None
  have grown: "only_spt st (snd (spt_stack_growth E a st1))"
    by (rule only_spt_trans [OF assms only_spt_stack_growth])
  have "checked st (sys_exit (- 1) st1 :: spt_entry option res)"
    by (rule checked_fatal [OF fatal_sys_exit [OF assms]])
  moreover have "checked st (sys_exit (- 1) (snd (spt_stack_growth E a st1)) :: spt_entry option res)"
    by (rule checked_fatal [OF fatal_sys_exit [OF grown]])
  moreover have "checked st (Normal None (snd (spt_stack_growth E a st1)) :: spt_entry option res)"
    by (rule checked_Normal [OF grown])
  ultimately show ?thesis
    using None by (simp add: check_and_pin_addr_def)
qed


declare valid_uaddr_loop.simps [simp del]
declare check_and_pin_buffer_loop.simps [simp del]

lemma fatal_Stopped:
  "fatal st (Stopped why s) =
     (why = Exited \<and> exit_status s = - 1 \<and> trace s = trace st @ exit_trace st (- 1))"
  by (simp add: fatal_def)

lemma checked_Stopped:
  "checked st (Stopped why st' :: 'a res) = fatal st (Stopped why st' :: 'a res)"
  by (simp add: checked_def)

lemma valid_uaddr_loop_checked:
  "only_spt st st1 \<Longrightarrow>
     checked st (valid_uaddr_loop E a e st1)
     \<and> (\<forall>u st'. valid_uaddr_loop E a e st1 = Normal u st' \<longrightarrow> st' = st1)"
proof (induction E a e st1 rule: valid_uaddr_loop.induct)
  case (1 E a e st1)
  show ?case
  proof (cases "a < e")
    case False
    then show ?thesis
      using "1.prems" by (simp add: valid_uaddr_loop.simps [of E a e st1] checked_Normal)
  next
    case inside: True
    show ?thesis
    proof (cases "a = 0 \<or> \<not> is_user_vaddr E a \<or> get_spte st1 a = None")
      case True
      have "fatal st (sys_exit (- 1) st1 :: unit res)"
        by (rule fatal_sys_exit [OF "1.prems"])
      then show ?thesis
        using inside True
        by (auto simp: valid_uaddr_loop.simps [of E a e st1] checked_fatal fatal_def)
    next
      case False
      then have "valid_uaddr_loop E a e st1 = valid_uaddr_loop E (a + 1) e st1"
        using inside by (auto simp: valid_uaddr_loop.simps [of E a e st1])
      then show ?thesis
        using "1.IH" [OF inside False "1.prems"] by simp
    qed
  qed
qed

lemma get_syscall_type_checked:
  "checked st (get_syscall_type E f st)
   \<and> (\<forall>t st'. get_syscall_type E f st = Normal t st' \<longrightarrow>
         st' = st \<and> t = read32 (mem st) (esp f))"
proof (cases "valid_uaddr_loop E (esp f) (esp f + 4) st")
  case (Normal u st')
  then have "st' = st"
    using valid_uaddr_loop_checked [OF only_spt_refl, of st E "esp f" "esp f + 4"] by simp
  then show ?thesis
    using Normal
    by (simp add: get_syscall_type_def valid_uaddr_def andthen_def checked_Normal only_spt_refl)
next
  case (Stopped why st')
  then have "checked st (Stopped why st' :: unit res)"
    using valid_uaddr_loop_checked [OF only_spt_refl, of st E "esp f" "esp f + 4"] by simp
  then show ?thesis
    using Stopped
    by (simp add: get_syscall_type_def valid_uaddr_def andthen_def checked_def fatal_def)
qed

lemma get_syscall_arg_loop_checked:
  "only_spt st st1 \<Longrightarrow>
     checked st (get_syscall_arg_loop E ptr n st1)
     \<and> (\<forall>args st2. get_syscall_arg_loop E ptr n st1 = Normal args st2 \<longrightarrow>
           length args = n \<and> (\<forall>i<n. args ! i = read32 (mem st) (ptr + 4 * of_nat i)))"
proof (induction n arbitrary: ptr st1)
  case 0
  then show ?case by (simp add: checked_Normal)
next
  case (Suc n)
  have first: "checked st (check_and_pin_addr E ptr 4 st1)"
    by (rule checked_check_and_pin_addr [OF Suc.prems])
  show ?case
  proof (cases "check_and_pin_addr E ptr 4 st1")
    case (Stopped why s)
    with first show ?thesis
      by (simp add: checked_def fatal_def)
  next
    case pinned: (Normal spte s1)
    with first have s1: "only_spt st s1"
      by (simp add: checked_def)
    note IH = Suc.IH [OF s1, of "ptr + 4"]
    show ?thesis
    proof (cases "get_syscall_arg_loop E (ptr + 4) n s1")
      case (Stopped why s)
      with IH pinned show ?thesis
        by (simp add: checked_def fatal_def)
    next
      case (Normal args s2)
      with IH have s2: "only_spt st s2" and len: "length args = n"
        and nth: "\<And>i. i < n \<Longrightarrow> args ! i = read32 (mem st) (ptr + 4 + 4 * of_nat i)"
        by (simp_all add: checked_def)
      have res: "get_syscall_arg_loop E ptr (Suc n) st1 = Normal (read32 (mem st) ptr # args) s2"
        using pinned Normal only_spt_fields(2) [OF s1] by simp
      have "(read32 (mem st) ptr # args) ! i = read32 (mem st) (ptr + 4 * of_nat i)"
        if "i < Suc n" for i
      proof (cases i)
        case 0
        then show ?thesis by simp
      next
        case (Suc j)
        with that have "j < n" by simp
        then show ?thesis
          using nth [of j] Suc by (simp add: algebra_simps)
      qed
      then show ?thesis
        using res s2 len by (simp add: checked_Normal)
    qed
  qed
qed

lemma word_less_succ_le: "(a :: 32 word) < x \<Longrightarrow> a + 1 \<le> x"
  by unat_arith

lemma check_and_pin_buffer_loop_checked:
  "only_spt st st1 \<Longrightarrow>
     checked st (check_and_pin_buffer_loop E a e sp w st1)
     \<and> (a \<le> x \<and> x < e \<and> \<not> is_valid_user_addr E x \<longrightarrow>
          fatal st (check_and_pin_buffer_loop E a e sp w st1))"
proof (induction E a e sp w st1 rule: check_and_pin_buffer_loop.induct)
  case (1 E a e sp w st1)
  note unfold = check_and_pin_buffer_loop.simps [of E a e sp w st1]
  have stop: "fatal st (sys_exit (- 1) st1 :: unit res)"
    by (rule fatal_sys_exit [OF "1.prems"])
  show ?case
  proof (cases "a < e")
    case False
    then have "\<not> (a \<le> x \<and> x < e)"
      by auto
    with False show ?thesis
      using "1.prems" by (auto simp: unfold checked_Normal)
  next
    case inside: True
    show ?thesis
    proof (cases "is_valid_user_addr E a")
      case False
      then show ?thesis
        using inside stop by (simp add: unfold checked_fatal)
    next
      case valid: True
      have first: "checked st (check_and_pin_addr E a sp st1)"
        by (rule checked_check_and_pin_addr [OF "1.prems"])
      show ?thesis
      proof (cases "check_and_pin_addr E a sp st1")
        case (Stopped why s)
        with first inside valid show ?thesis
          by (simp add: unfold checked_def fatal_Stopped)
      next
        case pinned: (Normal spte s1)
        with first have s1: "only_spt st s1"
          by (simp add: checked_def)
        show ?thesis
        proof (cases "case spte of None \<Rightarrow> False | Some s \<Rightarrow> w \<and> \<not> writeable s")
          case True
          have "fatal st (sys_exit (- 1) s1 :: unit res)"
            by (rule fatal_sys_exit [OF s1])
          then show ?thesis
            using inside valid pinned True by (simp add: unfold checked_fatal)
        next
          case False
          have step: "check_and_pin_buffer_loop E a e sp w st1
                        = check_and_pin_buffer_loop E (a + 1) e sp w s1"
            using inside valid pinned False by (simp add: unfold)
          have IH: "checked st (check_and_pin_buffer_loop E (a + 1) e sp w s1)
            \<and> (a + 1 \<le> x \<and> x < e \<and> \<not> is_valid_user_addr E x \<longrightarrow>
                 fatal st (check_and_pin_buffer_loop E (a + 1) e sp w s1))"
            using "1.IH" [OF inside _ pinned False s1] valid by simp
          have "a + 1 \<le> x" if "a \<le> x" "\<not> is_valid_user_addr E x"
          proof -
            from that valid have "a \<noteq> x" by auto
            with that(1) have "a < x" by simp
            then show ?thesis by (rule word_less_succ_le)
          qed
          with IH show ?thesis
            by (auto simp: step)
        qed
      qed
    qed
  qed
qed

declare valid_string.simps [simp del]
declare c_string.simps [simp del]

lemma andthen_opt_simps:
  "andthen_opt (Some (Stopped why s)) k = Some (Stopped why s)"
  "andthen_opt (Some (Normal v s)) k = k v s"
  by (simp_all add: andthen_opt_def)








text \<open>Unfolding rules for the concrete runs of the dispatcher.\<close>
lemma get_syscall_arg_loop_2:
  "get_syscall_arg_loop E ptr 2 st = get_syscall_arg_loop E ptr (Suc (Suc 0)) st"
  by (simp add: numeral_2_eq_2)

lemma get_syscall_arg_loop_3:
  "get_syscall_arg_loop E ptr 3 st = get_syscall_arg_loop E ptr (Suc (Suc (Suc 0))) st"
  by (simp add: numeral_3_eq_3)

lemmas run_defs =
  syscall_handler_def get_syscall_type_def get_syscall_arg_def andthen_opt_def andthen_def
  valid_uaddr_def check_and_pin_addr_def check_and_pin_string_def check_and_pin_buffer_def
  unpin_buffer_def unpin_string_def unpin_addr_def assert_unpin_string_def
  get_spte_def spt_load_def spt_stack_growth_def pg_round_down_def PGSIZE_def
  is_valid_user_addr_def is_user_vaddr_def read32_def
  lock_acquire_def lock_release_def emit_def Let_def
  valid_uaddr_loop.simps check_and_pin_buffer_loop.simps
  check_and_pin_string_loop.simps unpin_string_loop.simps valid_string.simps c_string.simps
  get_syscall_arg_loop_2 get_syscall_arg_loop_3 sys_exit_def thread_exit_def

lemmas demo_defs = demo_env_def demo_state_def demo_mem_def demo_page_def







subsection \<open>Reserved descriptors\<close>

lemma fatal_exit_code: "fatal st r \<Longrightarrow> exit_code r = Some (- 1)"
  by (cases r) (auto simp: fatal_def)

lemma checked_exit_code:
  "checked st r \<Longrightarrow> r = Stopped why s \<Longrightarrow> exit_code (Stopped why s :: 'b res) = Some (- 1)"
  by (simp add: checked_def fatal_def)

text \<open>A case of the switch that always ends with status -1 makes the dispatch end so.\<close>
lemma syscall_handler_exits:
  assumes "\<And>st1. only_spt st st1 \<Longrightarrow>
             \<exists>r. syscall_switch E (syscall_nr E (read32 (mem st) (esp f))) f st1 = Some r
                   \<and> exit_code r = Some (- 1)"
  shows "\<exists>r. syscall_handler E f st = Some r \<and> exit_code r = Some (- 1)"
proof (cases "get_syscall_type E f st")
  case (Stopped why s)
  with get_syscall_type_checked [of st E f]
  have "exit_code (Stopped why s :: intr_frame res) = Some (- 1)"
    using checked_exit_code by blast
  then show ?thesis
    using Stopped by (simp add: syscall_handler_def andthen_opt_simps)
next
  case (Normal t st0)
  with get_syscall_type_checked [of st E f]
  have st0: "st0 = st" and t: "t = read32 (mem st) (esp f)"
    by simp_all
  have pin: "checked st (check_and_pin_addr E (esp f) (esp f) st)"
    by (rule checked_check_and_pin_addr [OF only_spt_refl])
  show ?thesis
  proof (cases "check_and_pin_addr E (esp f) (esp f) st")
    case (Stopped why s)
    with pin have "exit_code (Stopped why s :: intr_frame res) = Some (- 1)"
      using checked_exit_code by blast
    then show ?thesis
      using Normal st0 Stopped by (simp add: syscall_handler_def andthen_opt_simps)
  next
    case pinned: (Normal spte st1)
    with pin have "only_spt st st1"
      by (simp add: checked_def)
    from assms [OF this] obtain r
      where r: "syscall_switch E (syscall_nr E t) f st1 = Some r" "exit_code r = Some (- 1)"
      by (auto simp: t)
    then obtain why s where "r = Stopped why s"
      by (cases r) simp_all
    with r show ?thesis
      using Normal st0 pinned by (simp add: syscall_handler_def andthen_opt_simps)
  qed
qed

text \<open>The arguments that \<^verbatim>\<open>get_syscall_arg\<close> returns, or a fatal stop.\<close>
lemma get_syscall_arg_cases:
  assumes "only_spt st st1"
  shows "(\<exists>why s. get_syscall_arg E f n st1 = Stopped why s
            \<and> exit_code (Stopped why s :: intr_frame res) = Some (- 1))
       \<or> (\<exists>args st2. get_syscall_arg E f n st1 = Normal args st2 \<and> only_spt st st2
            \<and> (\<forall>i<n. args ! i = read32 (mem st) (esp f + 4 + 4 * of_nat i)))"
proof (cases "get_syscall_arg_loop E (esp f + 4) n st1")
  case (Stopped why s)
  moreover have "checked st (get_syscall_arg_loop E (esp f + 4) n st1)"
    using get_syscall_arg_loop_checked [OF assms] by blast
  ultimately have "exit_code (Stopped why s :: intr_frame res) = Some (- 1)"
    using checked_exit_code by blast
  with Stopped show ?thesis
    by (simp add: get_syscall_arg_def)
next
  case (Normal as st2)
  with get_syscall_arg_loop_checked [OF assms, of E "esp f + 4" n]
  have "only_spt st st2" "\<forall>i<n. as ! i = read32 (mem st) (esp f + 4 + 4 * of_nat i)"
    by (simp_all add: checked_def)
  with Normal show ?thesis
    by (simp add: get_syscall_arg_def)
qed

lemma close_reserved_exits:
  assumes nr: "syscall_nr E (read32 (mem st) (esp f)) = Some SYS_CLOSE"
    and arg: "read32 (mem st) (esp f + 4) = 0 \<or> read32 (mem st) (esp f + 4) = 1"
  shows "\<exists>r. syscall_handler E f st = Some r \<and> exit_code r = Some (- 1)"
proof (rule syscall_handler_exits)
  fix st1
  assume st1: "only_spt st st1"
  show "\<exists>r. syscall_switch E (syscall_nr E (read32 (mem st) (esp f))) f st1 = Some r
             \<and> exit_code r = Some (- 1)"
  proof -
    consider (stopped) why s where "get_syscall_arg E f 1 st1 = Stopped why s"
        "exit_code (Stopped why s :: intr_frame res) = Some (- 1)"
      | (args) as st2 where "get_syscall_arg E f 1 st1 = Normal as st2" "only_spt st st2"
        "\<forall>i<1. as ! i = read32 (mem st) (esp f + 4 + 4 * of_nat i)"
      using get_syscall_arg_cases [OF st1, of E f 1] by blast
    then show ?thesis
    proof cases
    case (stopped why s)
    then show ?thesis
      by (simp add: nr andthen_opt_simps)
  next
    case (args as st2)
    from args(3) have "as ! 0 = read32 (mem st) (esp f + 4)"
      by simp
    with arg have "sys_close E (as ! 0) st2 = sys_exit (- 1) st2"
      by (auto simp: sys_close_def)
    moreover obtain s where "(sys_exit (- 1) st2 :: unit res) = Stopped Exited s"
      "exit_status s = - 1"
      using sys_exit_stops [of "- 1" st2] by blast
    ultimately show ?thesis
      using args(1) by (simp add: nr andthen_opt_simps)
  qed
  qed
qed

lemma buffer_then_exit:
  assumes st1: "only_spt st st1"
    and handler: "\<And>as st3. as ! 0 = read32 (mem st) (esp f + 4) \<Longrightarrow>
        h (as ! 0) (as ! 1) (as ! 2) st3 = (sys_exit (- 1) (lock_release (lock_acquire st3)) :: 32 word res)"
  shows "\<exists>r. andthen_opt (Some (get_syscall_arg E f 3 st1)) (\<lambda>args st2.
           andthen_opt (Some (check_and_pin_buffer E (args ! 1) (args ! 2) (esp f) w st2)) (\<lambda>u st3.
           andthen_opt (Some (h (args ! 0) (args ! 1) (args ! 2) st3))
             (k args :: 32 word \<Rightarrow> pstate \<Rightarrow> intr_frame res option))) = Some r
         \<and> exit_code r = Some (- 1)"
proof -
  consider (stopped) why s where "get_syscall_arg E f 3 st1 = Stopped why s"
      "exit_code (Stopped why s :: intr_frame res) = Some (- 1)"
    | (args) as st2 where "get_syscall_arg E f 3 st1 = Normal as st2" "only_spt st st2"
      "\<forall>i<3. as ! i = read32 (mem st) (esp f + 4 + 4 * of_nat i)"
    using get_syscall_arg_cases [OF st1, of E f 3] by blast
  then show ?thesis
  proof cases
  case (stopped why s)
  then show ?thesis
    by (simp add: andthen_opt_simps)
next
  case (args as st2)
  from args(3) have a0: "as ! 0 = read32 (mem st) (esp f + 4)"
    by simp
  let ?check = "check_and_pin_buffer E (as ! 1) (as ! 2) (esp f) w st2"
  have chk: "checked st ?check"
    using check_and_pin_buffer_loop_checked [OF args(2)]
    by (simp add: check_and_pin_buffer_def)
  show ?thesis
  proof (cases ?check)
    case (Stopped why s)
    with chk have "exit_code (Stopped why s :: intr_frame res) = Some (- 1)"
      using checked_exit_code by blast
    then show ?thesis
      using args(1) Stopped by (simp add: andthen_opt_simps)
  next
    case (Normal u st3)
    obtain s where "(sys_exit (- 1) (lock_release (lock_acquire st3)) :: 32 word res)
                      = Stopped Exited s" "exit_status s = - 1"
      using sys_exit_stops [of "- 1" "lock_release (lock_acquire st3)"] by blast
    then show ?thesis
      using args(1) Normal handler [OF a0, of st3] by (simp add: andthen_opt_simps)
  qed
  qed
qed

lemma write_reserved_exits:
  assumes nr: "syscall_nr E (read32 (mem st) (esp f)) = Some SYS_WRITE"
    and arg: "read32 (mem st) (esp f + 4) = 0"
  shows "\<exists>r. syscall_handler E f st = Some r \<and> exit_code r = Some (- 1)"
proof (rule syscall_handler_exits)
  fix st1
  assume st1: "only_spt st st1"
  have "\<And>as st3. as ! 0 = read32 (mem st) (esp f + 4) \<Longrightarrow>
          sys_write E (as ! 0) (as ! 1) (as ! 2) st3
            = sys_exit (- 1) (lock_release (lock_acquire st3))"
    using arg by (simp add: sys_write_def)
  then show "\<exists>r. syscall_switch E (syscall_nr E (read32 (mem st) (esp f))) f st1 = Some r
             \<and> exit_code r = Some (- 1)"
    unfolding nr syscall_switch.simps
    by (rule buffer_then_exit [where h = "sys_write E" and w = False and E = E and f = f
          and k = "\<lambda>args r st3. Some (Normal (f\<lparr>eax := r\<rparr>)
                     (unpin_buffer (args ! 1) (args ! 2) st3))", OF st1])
qed

lemma read_reserved_exits:
  assumes nr: "syscall_nr E (read32 (mem st) (esp f)) = Some SYS_READ"
    and arg: "read32 (mem st) (esp f + 4) = 1"
  shows "\<exists>r. syscall_handler E f st = Some r \<and> exit_code r = Some (- 1)"
proof (rule syscall_handler_exits)
  fix st1
  assume st1: "only_spt st st1"
  have "\<And>as st3. as ! 0 = read32 (mem st) (esp f + 4) \<Longrightarrow>
          sys_read E (as ! 0) (as ! 1) (as ! 2) st3
            = sys_exit (- 1) (lock_release (lock_acquire st3))"
    using arg by (simp add: sys_read_def)
  then show "\<exists>r. syscall_switch E (syscall_nr E (read32 (mem st) (esp f))) f st1 = Some r
             \<and> exit_code r = Some (- 1)"
    unfolding nr syscall_switch.simps
    by (rule buffer_then_exit [where h = "sys_read E" and w = True and E = E and f = f
          and k = "\<lambda>args r st3. Some (Normal (f\<lparr>eax := r\<rparr>)
                     (unpin_buffer (args ! 1) (args ! 2) st3))", OF st1])
qed

text \<open>
  C5. Writing to descriptor 0, reading from descriptor 1 and closing descriptor 0 or 1
  each end the process with exit status -1: the handlers do so on every state, and a
  dispatch of such a call ends the process with status -1 whatever its other arguments
  are (a rejected stack slot or buffer ends it with the same status).
\<close>
theorem reserved_descriptor_misuse:
  "exit_code (sys_write E 0 buffer sz st) = Some (- 1)
   \<and> exit_code (sys_read E 1 buffer sz st) = Some (- 1)
   \<and> exit_code (sys_close E 0 st) = Some (- 1)
   \<and> exit_code (sys_close E 1 st) = Some (- 1)
   \<and> ((syscall_nr E (read32 (mem st) (esp f)) = Some SYS_WRITE
          \<and> read32 (mem st) (esp f + 4) = 0)
        \<or> (syscall_nr E (read32 (mem st) (esp f)) = Some SYS_READ
          \<and> read32 (mem st) (esp f + 4) = 1)
        \<or> (syscall_nr E (read32 (mem st) (esp f)) = Some SYS_CLOSE
          \<and> (read32 (mem st) (esp f + 4) = 0 \<or> read32 (mem st) (esp f + 4) = 1))
      \<longrightarrow> (\<exists>r. syscall_handler E f st = Some r \<and> exit_code r = Some (- 1)))"
proof -
  have w: "sys_write E 0 buffer sz st = sys_exit (- 1) (lock_release (lock_acquire st))"
    by (simp add: sys_write_def)
  have r: "sys_read E 1 buffer sz st = sys_exit (- 1) (lock_release (lock_acquire st))"
    by (simp add: sys_read_def)
  have c0: "sys_close E 0 st = sys_exit (- 1) st"
    by (simp add: sys_close_def)
  have c1: "sys_close E 1 st = sys_exit (- 1) st"
    by (simp add: sys_close_def)
  have handlers: "exit_code (sys_write E 0 buffer sz st) = Some (- 1)"
    "exit_code (sys_read E 1 buffer sz st) = Some (- 1)"
    "exit_code (sys_close E 0 st) = Some (- 1)"
    "exit_code (sys_close E 1 st) = Some (- 1)"
    by (simp_all only: w r c0 c1 exit_code_sys_exit)
  show ?thesis
    using handlers write_reserved_exits [of E st f] read_reserved_exits [of E st f]
      close_reserved_exits [of E st f]
    by blast
qed

theorem reserved_descriptor_misuse_witness:
  "exit_code (sys_write demo_env 0 0x08048010 1 demo_state) = Some (- 1)
   \<and> exit_code (sys_read demo_env 1 0x08048010 1 demo_state) = Some (- 1)
   \<and> exit_code (sys_close demo_env 0 demo_state) = Some (- 1)
   \<and> exit_code (sys_close demo_env 1 demo_state) = Some (- 1)
   \<and> (\<exists>r. syscall_handler demo_env \<lparr>esp = 0xBFFFF600, eax = 0\<rparr> demo_state = Some r
          \<and> exit_code r = Some (- 1))"
proof -
  have call: "syscall_nr demo_env (read32 (mem demo_state) 0xBFFFF600) = Some SYS_CLOSE"
    "read32 (mem demo_state) (0xBFFFF600 + 4) = 1"
    by (simp_all add: read32_def demo_defs)
  from reserved_descriptor_misuse
    [where E = demo_env and buffer = "0x08048010" and sz = 1 and st = demo_state
       and f = "\<lparr>esp = 0xBFFFF600, eax = 0\<rparr>"]
  show ?thesis
    using call by simp
qed

subsection \<open>Unpinning\<close>

text \<open>
  C2 (violated by the code). The claim: every page pinned during validation is unpinned
  when the dispatch finishes. The \<^verbatim>\<open>SYS_REMOVE\<close> case pins its string and never calls
  \<^verbatim>\<open>unpin_string\<close>: in the concrete process \<^verbatim>\<open>remove ("a")\<close> returns true and leaves
  the string's page, unpinned before, pinned. The sibling case \<^verbatim>\<open>SYS_OPEN\<close> on the same
  string leaves the page unpinned.
\<close>
theorem remove_leaves_string_pinned:
  "map_option pinned (spt demo_state 0x08048000) = Some False
   \<and> (case syscall_handler demo_env \<lparr>esp = 0xBFFFF100, eax = 0\<rparr> demo_state of
         Some (Normal f' st') \<Rightarrow>
           eax f' = 1 \<and> trace st' = [FilesysRemove [97]]
           \<and> map_option pinned (spt st' 0x08048000) = Some True
       | Some (Stopped why st') \<Rightarrow> False
       | None \<Rightarrow> False)
   \<and> (case syscall_handler demo_env \<lparr>esp = 0xBFFFF500, eax = 0\<rparr> demo_state of
         Some (Normal f' st') \<Rightarrow>
           eax f' = 3 \<and> trace st' = [FilesysOpen [97]]
           \<and> map_option pinned (spt st' 0x08048000) = Some False
       | Some (Stopped why st') \<Rightarrow> False
       | None \<Rightarrow> False)"
  by (simp add: run_defs demo_defs sys_remove_def sys_open_def filesys_remove_def
      filesys_open_def)



subsection \<open>Argument slots\<close>



end
